theory Spec2Isabelle
  imports Complex_Main "HOL-Library.Product_Lexorder" "HOL-Library.Monad_Syntax"
begin

section \<open>JavaScript values\<close>

text \<open>
  In the cart routes and the aggregation a JavaScript Number is read as a \<open>real\<close>
  (exact arithmetic: rounding of doubles is not modelled there); the rating of a shop
  is computed in binary64, see the section on doubles. An ObjectId is the string its
  \<open>toString()\<close> gives; request strings meant as ids of the cart routes are taken to
  be well-formed ids, so that no lookup fails on a cast. A Date is its millisecond count. A string field of a request body is a \<open>string\<close> in which
  the empty string also stands for an absent field: the guards of the handlers test
  \<open>!field\<close>, which is true for both.
\<close>

type_synonym ObjectId = string
type_synonym Date = int

definition Math_round :: "real \<Rightarrow> real" where
  \<comment> \<open>nearest integer, a tie going up\<close>
  "Math_round x = of_int \<lfloor>x + 1 / 2\<rfloor>"

fun findIndex :: "('a \<Rightarrow> bool) \<Rightarrow> 'a list \<Rightarrow> nat option" where
  \<comment> \<open>\<open>Array.prototype.findIndex\<close>; \<open>None\<close> is the source's \<open>-1\<close>\<close>
  "findIndex p [] = None"
| "findIndex p (x # xs) = (if p x then Some 0 else map_option Suc (findIndex p xs))"

definition splice1 :: "'a list \<Rightarrow> int \<Rightarrow> 'a list" where
  \<comment> \<open>the array after \<open>splice(start, 1)\<close>: a negative start counts from the end\<close>
  "splice1 xs start =
     (let len = int (length xs);
          k = (if start < 0 then max (len + start) 0 else min start len)
      in take (nat k) xs @ drop (nat k + 1) xs)"

section \<open>Doubles\<close>




definition roundeven :: "real \<Rightarrow> int" where
  "roundeven y =
     (let f = \<lfloor>y\<rfloor>; d = y - of_int f
      in if d < 1 / 2 then f else if 1 / 2 < d then f + 1 else if even f then f else f + 1)"



section \<open>Responses\<close>

text \<open>
  One constructor for each failure response of the cart routes. In the words of the
  error taxonomy: \<open>FoodNotFound\<close>, \<open>CartNotFound\<close> and \<open>ItemNotFound\<close> are NotFound,
  \<open>ShopMismatch\<close> is Conflict, \<open>FoodUnavailable\<close> is Unavailable, \<open>CartEmpty\<close> is
  InvalidState, \<open>IdsRequired\<close>, \<open>QuantityTooSmall\<close> and \<open>CheckoutFieldsRequired\<close> are
  ValidationError, and the five \<open>Error...\<close> are the responses of the \<open>catch\<close> blocks
  of the five handlers (Internal).
\<close>

datatype error =
    IdsRequired
  | FoodNotFound
  | ShopMismatch
  | FoodUnavailable
  | QuantityTooSmall
  | CartNotFound
  | ItemNotFound
  | CartEmpty
  | CheckoutFieldsRequired
  | ErrorAdding
  | ErrorUpdating
  | ErrorRemoving
  | ErrorClearing
  | ErrorCheckout

fun status_code :: "error \<Rightarrow> nat" where
  "status_code IdsRequired = 400"
| "status_code FoodNotFound = 404"
| "status_code ShopMismatch = 400"
| "status_code FoodUnavailable = 400"
| "status_code QuantityTooSmall = 400"
| "status_code CartNotFound = 404"
| "status_code ItemNotFound = 404"
| "status_code CartEmpty = 400"
| "status_code CheckoutFieldsRequired = 400"
| "status_code ErrorAdding = 500"
| "status_code ErrorUpdating = 500"
| "status_code ErrorRemoving = 500"
| "status_code ErrorClearing = 500"
| "status_code ErrorCheckout = 500"

fun message :: "error \<Rightarrow> string" where
  "message IdsRequired = ''Food ID and Shop ID are required''"
| "message FoodNotFound = ''Food item not found''"
| "message ShopMismatch = ''Food item does not belong to the specified shop''"
| "message FoodUnavailable = ''Food item is currently unavailable''"
| "message QuantityTooSmall = ''Quantity must be at least 1''"
| "message CartNotFound = ''Cart not found''"
| "message ItemNotFound = ''Item not found in cart''"
| "message CartEmpty = ''Cart is empty''"
| "message CheckoutFieldsRequired =
     ''Payment method, delivery address, and phone number are required''"
| "message ErrorAdding = ''Error adding item to cart''"
| "message ErrorUpdating = ''Error updating cart''"
| "message ErrorRemoving = ''Error removing item from cart''"
| "message ErrorClearing = ''Error clearing cart''"
| "message ErrorCheckout = ''Error processing checkout''"

text \<open>
  What a rejected \<open>save()\<close> throws; the \<open>catch\<close> block of the handler turns it into
  the handler's response of status 500.
\<close>

datatype save_error = ValidationError | DuplicateKey | InvalidCoordinates

section \<open>Documents\<close>

subsection \<open>Food\<close>

text \<open>
  \<open>FoodSchema\<close> declares \<open>name\<close>, \<open>cooking_time\<close>, \<open>price\<close>, \<open>instock\<close>, \<open>veg\<close>,
  \<open>beverage\<close>, \<open>cuisine\<close>, \<open>order_num\<close>, \<open>image\<close>, \<open>menu_category\<close>, \<open>shopid\<close>,
  \<open>createdBy\<close> and two dates. The cart routes read \<open>food.shop\<close> and \<open>food.available\<close>,
  which the schema does not declare; a read of an undeclared path of a document gives
  \<open>undefined\<close>. The record keeps these two reads as optional fields, \<open>None\<close> for
  \<open>undefined\<close>, so that the handlers are modelled for whatever document \<open>findById\<close>
  hands them, and \<open>FoodSchema_document\<close> says which documents the schema gives.
\<close>

record food_doc =
  name :: string
  price :: real
  instock :: bool
  shopid :: int
  shop :: "ObjectId option"
  available :: "bool option"

definition FoodSchema_document :: "food_doc \<Rightarrow> bool" where
  "FoodSchema_document f = (food_doc.shop f = None \<and> available f = None)"

subsection \<open>Shop\<close>

record rating =
  average :: real
  count :: nat

record shop_doc =
  oid :: ObjectId
  name :: string
  coordinates :: "real \<times> real"
  rating :: rating
  online :: bool
  isActive :: bool
  isVerified :: bool
  isFeatured :: bool

subsection \<open>Cart\<close>

record cart_item =
  food :: ObjectId
  shop :: ObjectId
  quantity :: real
  price :: real
  subtotal :: real

record cart =
  user :: ObjectId
  items :: "cart_item list"
  totalAmount :: real
  isCheckedOut :: bool
  createdAt :: Date
  updatedAt :: "Date option"

subsection \<open>Order\<close>

text \<open>
  The order id is the text ORD, the timestamp and a random number of three digits; it is
  kept as its two numbers. A payment reference is the text COD_ or PAY_ and a timestamp.
\<close>

datatype order_ref = ORD Date nat

datatype payment_ref = COD Date | PAY Date

record address =
  street :: string
  city :: string
  state :: string
  pincode :: string
  landmark :: "string option"

record order_item =
  foodId :: ObjectId
  quantity :: real
  price :: real
  subtotal :: real
  foodName :: string

record order =
  userId :: ObjectId
  shopId :: ObjectId
  orderId :: "order_ref option"
  items :: "order_item list"
  totalAmount :: real
  deliveryFee :: real
  taxes :: real
  grandTotal :: real
  deliveryTime :: real
  status :: string
  paymentMethod :: string
  paymentStatus :: string
  paymentId :: "payment_ref option"
  deliveryAddress :: address
  phoneNumber :: string
  estimatedDeliveryTime :: Date
  createdAt :: Date

subsection \<open>The collections the cart routes write\<close>

record store =
  carts :: "cart list"
  orders :: "order list"

section \<open>Saving a cart\<close>

text \<open>
  \<open>save()\<close> validates the document against its schema, then runs the schema's
  \<open>pre('save')\<close> hook, then writes. The cart item schema asks \<open>quantity \<ge> 1\<close>; the
  other validators of the cart only ask for the presence of fields that the records
  always hold.
\<close>

definition cart_valid :: "cart \<Rightarrow> bool" where
  "cart_valid c = list_all (\<lambda>item. 1 \<le> cart_item.quantity item) (cart.items c)"

definition cart_pre_save :: "Date \<Rightarrow> cart \<Rightarrow> cart" where
  "cart_pre_save now c =
     c\<lparr>cart.totalAmount := foldl (\<lambda>sum item. sum + cart_item.subtotal item) 0 (cart.items c),
       updatedAt := Some now\<rparr>"

text \<open>A cart held by a handler is a stored one, with its position, or a new one.\<close>

datatype cart_ref = Stored nat | Fresh

definition cart_save :: "Date \<Rightarrow> store \<Rightarrow> cart_ref \<Rightarrow> cart \<Rightarrow> save_error + cart \<times> store" where
  "cart_save now s r c =
     (if \<not> cart_valid c then Inl ValidationError
      else let c' = cart_pre_save now c
           in Inr (c', case r of
                         Stored i \<Rightarrow> s\<lparr>carts := (carts s)[i := c']\<rparr>
                       | Fresh \<Rightarrow> s\<lparr>carts := carts s @ [c']\<rparr>))"

fun findFirst :: "('a \<Rightarrow> bool) \<Rightarrow> nat \<Rightarrow> 'a list \<Rightarrow> (nat \<times> 'a) option" where
  "findFirst p n [] = None"
| "findFirst p n (x # xs) = (if p x then Some (n, x) else findFirst p (Suc n) xs)"

definition findOne :: "store \<Rightarrow> ObjectId \<Rightarrow> (nat \<times> cart) option" where
  \<comment> \<open>\<open>Cart.findOne({ user, isCheckedOut: false })\<close>: the first match and its position\<close>
  "findOne s uid = findFirst (\<lambda>c. user c = uid \<and> \<not> isCheckedOut c) 0 (carts s)"

definition new_Cart :: "ObjectId \<Rightarrow> Date \<Rightarrow> cart" where
  \<comment> \<open>\<open>new Cart({ user, items: [] })\<close> with the schema's defaults\<close>
  "new_Cart uid now =
     \<lparr>user = uid, cart.items = [], cart.totalAmount = 0, isCheckedOut = False,
      cart.createdAt = now, updatedAt = None\<rparr>"

section \<open>The cart routes\<close>

text \<open>
  Every handler takes the store and gives the response and the store after it. The
  authenticated user is \<open>uid\<close>; \<open>now\<close> is the clock reading of the request.
\<close>

definition add_line :: "cart_item list \<Rightarrow> ObjectId \<Rightarrow> ObjectId \<Rightarrow> real \<Rightarrow> real \<Rightarrow> cart_item list" where
  \<comment> \<open>the \<open>findIndex\<close> and the branch on \<open>existingItemIndex\<close> of \<open>POST /add\<close>\<close>
  "add_line its fid sid qty pr =
     (case findIndex (\<lambda>item. food item = fid \<and> cart_item.shop item = sid) its of
        Some i \<Rightarrow>
          (let q = cart_item.quantity (its ! i) + qty
           in its[i := (its ! i)\<lparr>cart_item.quantity := q, cart_item.subtotal := q * pr\<rparr>])
      | None \<Rightarrow>
          its @ [\<lparr>food = fid, cart_item.shop = sid, cart_item.quantity = qty,
                  cart_item.price = pr, cart_item.subtotal = pr * qty\<rparr>])"

definition addItem ::
  "(ObjectId \<Rightarrow> food_doc option) \<Rightarrow> Date \<Rightarrow> store \<Rightarrow> ObjectId \<Rightarrow>
   string \<Rightarrow> string \<Rightarrow> real option \<Rightarrow> (error + cart) \<times> store" where
  "addItem findById now s uid fid sid quantity_opt =
     (let qty = (case quantity_opt of None \<Rightarrow> 1 | Some q \<Rightarrow> q) in
      if fid = [] \<or> sid = [] then (Inl IdsRequired, s)
      else case findById fid of
        None \<Rightarrow> (Inl FoodNotFound, s)
      | Some fd \<Rightarrow>
         (case food_doc.shop fd of
            None \<Rightarrow> (Inl ErrorAdding, s)
          | Some fshop \<Rightarrow>
             if fshop \<noteq> sid then (Inl ShopMismatch, s)
             else if available fd \<noteq> Some True then (Inl FoodUnavailable, s)
             else
               (let (r, c) = (case findOne s uid of
                                Some (i, c) \<Rightarrow> (Stored i, c)
                              | None \<Rightarrow> (Fresh, new_Cart uid now));
                    c1 = c\<lparr>cart.items := add_line (cart.items c) fid sid qty (food_doc.price fd)\<rparr>
                in case cart_save now s r c1 of
                     Inl e \<Rightarrow> (Inl ErrorAdding, s)
                   | Inr (c2, s') \<Rightarrow> (Inr c2, s'))))"

definition updateItem ::
  "Date \<Rightarrow> store \<Rightarrow> ObjectId \<Rightarrow> int \<Rightarrow> real option \<Rightarrow> (error + cart) \<times> store" where
  "updateItem now s uid itemIndex quantity_opt =
     (case quantity_opt of
        None \<Rightarrow> (Inl QuantityTooSmall, s)
      | Some qty \<Rightarrow>
         if qty = 0 \<or> qty < 1 then (Inl QuantityTooSmall, s)
         else
           (case findOne s uid of
              None \<Rightarrow> (Inl CartNotFound, s)
            | Some (i, c) \<Rightarrow>
               if int (length (cart.items c)) \<le> itemIndex then (Inl ItemNotFound, s)
               else if itemIndex < 0 then (Inl ErrorUpdating, s)
               else
                 (let k = nat itemIndex;
                      it = cart.items c ! k;
                      c1 = c\<lparr>cart.items := (cart.items c)
                               [k := it\<lparr>cart_item.quantity := qty,
                                        cart_item.subtotal := cart_item.price it * qty\<rparr>]\<rparr>
                  in case cart_save now s (Stored i) c1 of
                       Inl e \<Rightarrow> (Inl ErrorUpdating, s)
                     | Inr (c2, s') \<Rightarrow> (Inr c2, s'))))"

definition removeItem ::
  "Date \<Rightarrow> store \<Rightarrow> ObjectId \<Rightarrow> int \<Rightarrow> (error + cart) \<times> store" where
  "removeItem now s uid itemIndex =
     (case findOne s uid of
        None \<Rightarrow> (Inl CartNotFound, s)
      | Some (i, c) \<Rightarrow>
         if int (length (cart.items c)) \<le> itemIndex then (Inl ItemNotFound, s)
         else
           (case cart_save now s (Stored i) (c\<lparr>cart.items := splice1 (cart.items c) itemIndex\<rparr>) of
              Inl e \<Rightarrow> (Inl ErrorRemoving, s)
            | Inr (c2, s') \<Rightarrow> (Inr c2, s')))"

definition clearCart :: "Date \<Rightarrow> store \<Rightarrow> ObjectId \<Rightarrow> (error + cart option) \<times> store" where
  "clearCart now s uid =
     (case findOne s uid of
        None \<Rightarrow> (Inr None, s)
      | Some (i, c) \<Rightarrow>
         (case cart_save now s (Stored i) (c\<lparr>cart.items := []\<rparr>) of
            Inl e \<Rightarrow> (Inl ErrorClearing, s)
          | Inr (c2, s') \<Rightarrow> (Inr (Some c2), s')))"

section \<open>Checkout\<close>

text \<open>
  \<open>order.save()\<close> validates the new order (the enumerations, the required fields of
  the address, the phone number, and for each line \<open>quantity \<ge> 1\<close> and a food name),
  then the \<open>pre('save')\<close> hook of the order schema gives it its id from the clock and
  a random number below 1000, then the insert is refused if the id is already taken
  (the index on \<open>orderId\<close> is unique).
\<close>

definition order_valid :: "order \<Rightarrow> bool" where
  "order_valid ord =
     (paymentMethod ord \<in> set [''cod'', ''card'', ''upi'', ''wallet''] \<and>
      status ord \<in> set [''pending'', ''confirmed'', ''preparing'', ''out_for_delivery'',
                         ''delivered'', ''cancelled''] \<and>
      paymentStatus ord \<in> set [''pending'', ''completed'', ''failed'', ''refunded''] \<and>
      street (deliveryAddress ord) \<noteq> [] \<and> city (deliveryAddress ord) \<noteq> [] \<and>
      state (deliveryAddress ord) \<noteq> [] \<and> pincode (deliveryAddress ord) \<noteq> [] \<and>
      phoneNumber ord \<noteq> [] \<and>
      list_all (\<lambda>item. 1 \<le> order_item.quantity item \<and> foodName item \<noteq> []) (order.items ord))"

definition order_pre_save :: "Date \<Rightarrow> nat \<Rightarrow> order \<Rightarrow> order" where
  "order_pre_save now rnd ord =
     (if orderId ord = None then ord\<lparr>orderId := Some (ORD now rnd)\<rparr> else ord)"

definition order_save :: "Date \<Rightarrow> nat \<Rightarrow> store \<Rightarrow> order \<Rightarrow> save_error + order \<times> store" where
  "order_save now rnd s ord =
     (if \<not> order_valid ord then Inl ValidationError
      else let ord' = order_pre_save now rnd ord
           in if orderId ord' \<in> set (map orderId (orders s)) then Inl DuplicateKey
              else Inr (ord', s\<lparr>orders := orders s @ [ord']\<rparr>))"

definition simulate_payment :: "Date \<Rightarrow> string \<Rightarrow> string \<times> payment_ref option" where
  \<comment> \<open>\<open>paymentStatus\<close> and \<open>paymentId\<close> after the simulated payment\<close>
  "simulate_payment now pm =
     (if pm = ''cod'' then (''pending'', Some (COD now))
      else if pm = ''card'' \<or> pm = ''upi'' then (''completed'', Some (PAY now))
      else (''pending'', None))"

text \<open>
  The cart is read with its lines populated: \<open>item.food\<close> and \<open>item.shop\<close> are the
  documents the references point to, or \<open>null\<close> when there is none, and then the read
  of \<open>._id\<close> throws.
\<close>

definition order_line :: "(ObjectId \<Rightarrow> food_doc option) \<Rightarrow> cart_item \<Rightarrow> order_item option" where
  "order_line findFood item =
     (case findFood (food item) of
        None \<Rightarrow> None
      | Some fd \<Rightarrow>
          Some \<lparr>foodId = food item, order_item.quantity = cart_item.quantity item,
                order_item.price = cart_item.price item,
                order_item.subtotal = cart_item.subtotal item,
                foodName = food_doc.name fd\<rparr>)"

definition checkout ::
  "(ObjectId \<Rightarrow> food_doc option) \<Rightarrow> (ObjectId \<Rightarrow> shop_doc option) \<Rightarrow> Date \<Rightarrow> nat \<Rightarrow>
   store \<Rightarrow> ObjectId \<Rightarrow> string \<Rightarrow> address option \<Rightarrow> string \<Rightarrow> (error + order) \<times> store" where
  "checkout findFood findShop now rnd s uid pm addr phone =
     (case addr of
        None \<Rightarrow> (Inl CheckoutFieldsRequired, s)
      | Some a \<Rightarrow>
         if pm = [] \<or> phone = [] then (Inl CheckoutFieldsRequired, s)
         else
           (case findOne s uid of
              None \<Rightarrow> (Inl CartEmpty, s)
            | Some (i, c) \<Rightarrow>
               (case cart.items c of
                  [] \<Rightarrow> (Inl CartEmpty, s)
                | first # rest \<Rightarrow>
                   (let fee = 50;
                        tax = Math_round (cart.totalAmount c * 0.05);
                        grand = cart.totalAmount c + fee + tax;
                        (pstatus, pid) = simulate_payment now pm
                    in case findShop (cart_item.shop first) of
                         None \<Rightarrow> (Inl ErrorCheckout, s)
                       | Some sh \<Rightarrow>
                          (case those (map (order_line findFood) (cart.items c)) of
                             None \<Rightarrow> (Inl ErrorCheckout, s)
                           | Some lines \<Rightarrow>
                              (case order_save now rnd s
                                      \<lparr>userId = uid, shopId = cart_item.shop first,
                                       orderId = None, order.items = lines,
                                       order.totalAmount = cart.totalAmount c,
                                       deliveryFee = fee, taxes = tax, grandTotal = grand,
                                       deliveryTime = 45, status = ''confirmed'',
                                       paymentMethod = pm, paymentStatus = pstatus,
                                       paymentId = pid, deliveryAddress = a,
                                       phoneNumber = phone,
                                       estimatedDeliveryTime = now + 45 * 60 * 1000,
                                       order.createdAt = now\<rparr> of
                                 Inl e \<Rightarrow> (Inl ErrorCheckout, s)
                               | Inr (ord, s1) \<Rightarrow>
                                  (case cart_save now s1 (Stored i) (c\<lparr>isCheckedOut := True\<rparr>) of
                                     Inl e \<Rightarrow> (Inl ErrorCheckout, s1)
                                   | Inr (c2, s2) \<Rightarrow> (Inr ord, s2))))))))"

text \<open>
  The order a checkout that succeeds returns, written once for the proofs: the literal
  of the handler with the id the hook gives it.
\<close>

definition placed_order ::
  "Date \<Rightarrow> nat \<Rightarrow> ObjectId \<Rightarrow> string \<Rightarrow> address \<Rightarrow> string \<Rightarrow> cart \<Rightarrow> cart_item \<Rightarrow>
   order_item list \<Rightarrow> order" where
  "placed_order now rnd uid pm a phone c first lines =
     \<lparr>userId = uid, shopId = cart_item.shop first, orderId = Some (ORD now rnd),
      order.items = lines, order.totalAmount = cart.totalAmount c, deliveryFee = 50,
      taxes = Math_round (cart.totalAmount c * 0.05),
      grandTotal = cart.totalAmount c + 50 + Math_round (cart.totalAmount c * 0.05),
      deliveryTime = 45, status = ''confirmed'', paymentMethod = pm,
      paymentStatus = fst (simulate_payment now pm), paymentId = snd (simulate_payment now pm),
      deliveryAddress = a, phoneNumber = phone,
      estimatedDeliveryTime = now + 45 * 60 * 1000, order.createdAt = now\<rparr>"

section \<open>Sequences of cart mutations\<close>

text \<open>
  A mutation is one call of add, update, remove or clear, by some user at some time. A
  run stops at the first call that fails, and gives the store after the last call
  otherwise.
\<close>

datatype mutation =
    Add string string "real option"
  | Update int "real option"
  | Remove int
  | Clear

fun mutate ::
  "(ObjectId \<Rightarrow> food_doc option) \<Rightarrow> store \<Rightarrow> ObjectId \<times> Date \<times> mutation \<Rightarrow> error + store" where
  "mutate findById s (uid, now, Add fid sid q) =
     (case addItem findById now s uid fid sid q of (Inl e, _) \<Rightarrow> Inl e | (Inr _, s') \<Rightarrow> Inr s')"
| "mutate findById s (uid, now, Update k q) =
     (case updateItem now s uid k q of (Inl e, _) \<Rightarrow> Inl e | (Inr _, s') \<Rightarrow> Inr s')"
| "mutate findById s (uid, now, Remove k) =
     (case removeItem now s uid k of (Inl e, _) \<Rightarrow> Inl e | (Inr _, s') \<Rightarrow> Inr s')"
| "mutate findById s (uid, now, Clear) =
     (case clearCart now s uid of (Inl e, _) \<Rightarrow> Inl e | (Inr _, s') \<Rightarrow> Inr s')"

fun run ::
  "(ObjectId \<Rightarrow> food_doc option) \<Rightarrow> store \<Rightarrow> (ObjectId \<times> Date \<times> mutation) list \<Rightarrow> error + store" where
  "run findById s [] = Inr s"
| "run findById s (m # ms) =
     (case mutate findById s m of Inl e \<Rightarrow> Inl e | Inr s' \<Rightarrow> run findById s' ms)"

text \<open>
  What a mutation that succeeds did to the store, if anything: one save of the open
  cart of its user, stored or new.
\<close>

definition saved :: "store \<Rightarrow> ObjectId \<Rightarrow> store \<Rightarrow> bool" where
  "saved s uid s' =
     (\<exists>now r c1 c2. user c1 = uid \<and> \<not> isCheckedOut c1 \<and> cart_save now s r c1 = Inr (c2, s') \<and>
        (case r of Stored i \<Rightarrow> (\<exists>c. findOne s uid = Some (i, c)) | Fresh \<Rightarrow> findOne s uid = None))"

section \<open>Shop rating\<close>




section \<open>Trending shops\<close>

text \<open>
  The aggregation of \<open>GET /trending\<close>, stage by stage, up to \<open>$limit\<close>; the stages
  after it neither drop nor reorder shops. \<open>geoDistance\<close> is the distance in metres
  that \<open>$geoNear\<close> computes on the sphere, and \<open>near\<close> the point of the query.

  In the \<open>$lookup\<close> on the orders, the \<open>$match\<close> compares \<open>'$shopId'\<close> with
  \<open>'$shopId'\<close>: both are the field of the order. The variable \<open>shopId\<close> that the
  \<open>let\<close> binds to the \<open>_id\<close> of the shop would be \<open>'$$shopId'\<close>, and is not used.
  An empty group gives no document, and then \<open>$ifNull\<close> gives 0.
\<close>

record trending_row =
  doc :: shop_doc
  distance :: real
  weeklyOrders :: nat
  trendingScore :: real

definition geoNear ::
  "(real \<times> real \<Rightarrow> real \<times> real \<Rightarrow> real) \<Rightarrow> real \<times> real \<Rightarrow> shop_doc list \<Rightarrow>
   (shop_doc \<times> real) list" where
  "geoNear geoDistance near shops =
     sort_key snd
       (filter (\<lambda>(sh, d). d \<le> 15000 \<and> isActive sh \<and> isVerified sh \<and> online sh)
          (map (\<lambda>sh. (sh, geoDistance near (coordinates sh))) shops))"

definition weeklyStats :: "Date \<Rightarrow> order list \<Rightarrow> shop_doc \<Rightarrow> (nat \<times> real) list" where
  "weeklyStats now os sh =
     (let matched = filter (\<lambda>ord. shopId ord = shopId ord \<and> status ord = ''delivered'' \<and>
                                   now - 7 * 24 * 60 * 60 * 1000 \<le> order.createdAt ord) os
      in if matched = [] then []
         else [(length matched, sum_list (map order.totalAmount matched))])"

definition addFields :: "Date \<Rightarrow> order list \<Rightarrow> shop_doc \<times> real \<Rightarrow> trending_row" where
  "addFields now os shd =
     (case shd of (sh, d) \<Rightarrow>
        (let weekly = (case weeklyStats now os sh of
                         [] \<Rightarrow> 0
                       | (orderCount, totalRevenue) # _ \<Rightarrow> orderCount)
         in \<lparr>doc = sh, distance = d, weeklyOrders = weekly,
             trendingScore = average (rating sh) * 2 + real weekly
                             + (if isFeatured sh then 5 else 0) + (if d \<le> 5000 then 3 else 0)\<rparr>))"

definition trending_match :: "trending_row \<Rightarrow> bool" where
  "trending_match row =
     (4.0 \<le> average (rating (doc row)) \<or> 5 \<le> weeklyOrders row \<or> isFeatured (doc row))"

definition trendingShops ::
  "(real \<times> real \<Rightarrow> real \<times> real \<Rightarrow> real) \<Rightarrow> Date \<Rightarrow> shop_doc list \<Rightarrow> order list \<Rightarrow>
   real \<times> real \<Rightarrow> nat \<Rightarrow> trending_row list" where
  "trendingShops geoDistance now shops os near limit =
     take limit
       (sort_key (\<lambda>row. (- trendingScore row, - average (rating (doc row))))
          (filter trending_match (map (addFields now os) (geoNear geoDistance near shops))))"

text \<open>
  The count in the words of the specification: the orders of this shop that were
  delivered in the last seven days.
\<close>

definition delivered_in_week :: "Date \<Rightarrow> order list \<Rightarrow> ObjectId \<Rightarrow> nat" where
  "delivered_in_week now os sid =
     length (filter (\<lambda>ord. shopId ord = sid \<and> status ord = ''delivered'' \<and>
                           now - 7 * 24 * 60 * 60 * 1000 \<le> order.createdAt ord) os)"

section \<open>The shop router\<close>

text \<open>
  The \<open>GET\<close> routes of the shop router in the order of their declaration. A path is
  the list of its segments below the mount point \<open>/api/shops\<close>. A request goes to the
  first route whose pattern matches its path: a literal segment matches itself, and a
  parameter such as \<open>:id\<close> matches any segment that is not empty. No handler of this
  router calls \<open>next()\<close>, so no later route sees a request that an earlier one
  matched. Literal segments are compared as written.
\<close>

datatype segment = Lit string | Param

fun seg_matches :: "segment \<Rightarrow> string \<Rightarrow> bool" where
  "seg_matches (Lit l) s = (s = l)"
| "seg_matches Param s = (s \<noteq> [])"

definition path_matches :: "segment list \<Rightarrow> string list \<Rightarrow> bool" where
  "path_matches pat path = list_all2 seg_matches pat path"

datatype shop_handler =
    ListShops | GetShop | GetAnalytics | GetRecommendations | GetMyShops | GetMetadata
  | GetTrending | GetByCuisine | GetDashboard

definition shop_GET_routes :: "(segment list \<times> shop_handler) list" where
  "shop_GET_routes =
     [([], ListShops),
      ([Param], GetShop),
      ([Param, Lit ''analytics''], GetAnalytics),
      ([Lit ''recommendations'', Param], GetRecommendations),
      ([Lit ''owner'', Lit ''my-shops''], GetMyShops),
      ([Lit ''info'', Lit ''metadata''], GetMetadata),
      ([Lit ''trending''], GetTrending),
      ([Lit ''cuisine'', Param], GetByCuisine),
      ([Param, Lit ''dashboard''], GetDashboard)]"

definition route :: "(segment list \<times> 'h) list \<Rightarrow> string list \<Rightarrow> 'h option" where
  "route table path = map_option snd (find (\<lambda>(pat, h). path_matches pat path) table)"

text \<open>
  The answer to a request: a failure with its status and message, the details of a shop
  (of the handler of \<open>/:id\<close> the guards are embedded, and the document it goes on
  with), the rows of the trending aggregation, or the name of a handler that is not
  embedded. \<open>Unrouted\<close> is a path that no route matches.
\<close>

datatype shop_reply =
    Failure nat string
  | ShopDetails shop_doc
  | TrendingShops "trending_row list"
  | Handled shop_handler
  | Unrouted

text \<open>
  The query string. A coordinate is \<open>None\<close> when the parameter is missing or empty,
  and otherwise the number that \<open>parseFloat\<close> reads; \<open>limit\<close> is \<open>None\<close> when
  missing, and otherwise the integer that \<open>parseInt\<close> reads.
\<close>

record shop_query =
  latitude :: "real option"
  longitude :: "real option"
  limit :: "int option"

definition hexdigit :: "char \<Rightarrow> bool" where
  "hexdigit c = (c \<in> set ''0123456789abcdefABCDEF'')"

definition getShop :: "shop_doc list \<Rightarrow> string \<Rightarrow> shop_reply" where
  "getShop shops ident =
     (if \<not> (length ident = 24 \<and> list_all hexdigit ident)
      then Failure 400 ''Invalid shop ID format''
      else case find (\<lambda>sh. oid sh = ident) shops of
             None \<Rightarrow> Failure 404 ''Shop not found or inactive''
           | Some sh \<Rightarrow>
               if \<not> isActive sh then Failure 404 ''Shop not found or inactive''
               else ShopDetails sh)"

text \<open>
  The handler of \<open>/trending\<close>. A \<open>$limit\<close> that is not positive is an error of the
  aggregation, which the \<open>catch\<close> block answers.
\<close>

definition getTrending ::
  "(real \<times> real \<Rightarrow> real \<times> real \<Rightarrow> real) \<Rightarrow> Date \<Rightarrow> shop_doc list \<Rightarrow> order list \<Rightarrow>
   shop_query \<Rightarrow> shop_reply" where
  "getTrending geoDistance now shops os q =
     (case (latitude q, longitude q) of
        (Some lat, Some lon) \<Rightarrow>
          (let lim = (case limit q of None \<Rightarrow> 10 | Some l \<Rightarrow> l)
           in if lim \<le> 0 then Failure 500 ''Server error while fetching trending shops''
              else TrendingShops (trendingShops geoDistance now shops os (lon, lat) (nat lim)))
      | _ \<Rightarrow> Failure 400 ''Location coordinates are required'')"

definition GET_shops ::
  "(real \<times> real \<Rightarrow> real \<times> real \<Rightarrow> real) \<Rightarrow> Date \<Rightarrow> shop_doc list \<Rightarrow> order list \<Rightarrow>
   string list \<Rightarrow> shop_query \<Rightarrow> shop_reply" where
  "GET_shops geoDistance now shops os path q =
     (case route shop_GET_routes path of
        None \<Rightarrow> Unrouted
      | Some h \<Rightarrow>
          if h = GetShop then getShop shops (hd path)
          else if h = GetTrending then getTrending geoDistance now shops os q
          else Handled h)"

section \<open>Example data\<close>

text \<open>\<open>demo_food\<close> and \<open>demo_food_out\<close> are documents of \<open>FoodSchema\<close>.\<close>

definition demo_food :: food_doc where
  "demo_food = \<lparr>food_doc.name = ''Paneer Tikka'', food_doc.price = 100, instock = True,
                 shopid = 7, food_doc.shop = None, available = None\<rparr>"

definition demo_food_out :: food_doc where
  "demo_food_out = demo_food\<lparr>food_doc.name := ''Masala Dosa'', instock := False\<rparr>"

definition demo_findFood :: "ObjectId \<Rightarrow> food_doc option" where
  "demo_findFood fid =
     (if fid = ''food1'' then Some demo_food
      else if fid = ''food2'' then Some demo_food_out else None)"

definition demo_shop :: shop_doc where
  "demo_shop = \<lparr>oid = ''shop1'', shop_doc.name = ''Spice Hub'', coordinates = (77.2, 28.6),
                 rating = \<lparr>average = 4.0, count = 10\<rparr>, online = True, isActive = True,
                 isVerified = True, isFeatured = False\<rparr>"

definition demo_findShop :: "ObjectId \<Rightarrow> shop_doc option" where
  "demo_findShop sid = (if sid = ''shop1'' then Some demo_shop else None)"

definition demo_address :: address where
  "demo_address = \<lparr>street = ''12 MG Road'', city = ''Delhi'', state = ''Delhi'',
                    pincode = ''110001'', landmark = None\<rparr>"

definition demo_line :: cart_item where
  "demo_line = \<lparr>food = ''food1'', cart_item.shop = ''shop1'', cart_item.quantity = 2,
                 cart_item.price = 100, cart_item.subtotal = 200\<rparr>"

definition demo_cart :: cart where
  "demo_cart = \<lparr>user = ''user1'', cart.items = [demo_line], cart.totalAmount = 200,
                 isCheckedOut = False, cart.createdAt = 1000, updatedAt = Some 1000\<rparr>"

definition demo_store :: store where
  "demo_store = \<lparr>carts = [demo_cart], orders = []\<rparr>"

definition empty_store :: store where
  "empty_store = \<lparr>carts = [], orders = []\<rparr>"

definition demo_order :: "string \<Rightarrow> order" where
  "demo_order pm =
     placed_order 5000 42 ''user1'' pm demo_address ''9876543210'' demo_cart demo_line
       [\<lparr>foodId = ''food1'', order_item.quantity = 2, order_item.price = 100,
         order_item.subtotal = 200, foodName = ''Paneer Tikka''\<rparr>]"

definition demo_store_after :: "string \<Rightarrow> store" where
  "demo_store_after pm =
     \<lparr>carts = [demo_cart\<lparr>isCheckedOut := True, updatedAt := Some 5000\<rparr>],
      orders = [demo_order pm]\<rparr>"


definition demo_delivered :: "ObjectId \<Rightarrow> Date \<Rightarrow> order" where
  "demo_delivered sid t =
     (demo_order ''cod'')\<lparr>shopId := sid, status := ''delivered'', order.createdAt := t\<rparr>"

definition demo_shopA :: shop_doc where
  "demo_shopA = demo_shop\<lparr>oid := ''shopA'', rating := \<lparr>average = 3.5, count = 20\<rparr>\<rparr>"

definition demo_shopB :: shop_doc where
  "demo_shopB =
     demo_shop\<lparr>oid := ''shopB'', shop_doc.name := ''Wok Box'',
               rating := \<lparr>average = 3.0, count = 8\<rparr>\<rparr>"

definition demo_orders :: "order list" where
  "demo_orders =
     [demo_delivered ''shopA'' 900000000, demo_delivered ''shopA'' 900000001,
      demo_delivered ''shopB'' 900000002, demo_delivered ''shopB'' 900000003,
      demo_delivered ''shopB'' 900000004, demo_delivered ''shopB'' 900000005]"

definition demo_query :: shop_query where
  "demo_query = \<lparr>latitude = Some 28.6, longitude = Some 77.2, limit = None\<rparr>"

section \<open>Lists, lookups and saves\<close>

lemma foldl_subtotal:
  "foldl (\<lambda>sum item. sum + f item) a xs = a + sum_list (map f xs)"
  by (induction xs arbitrary: a) (simp_all add: add.assoc)

lemma findFirst_Some:
  "findFirst p n xs = Some (i, x) \<Longrightarrow> n \<le> i \<and> i - n < length xs \<and> xs ! (i - n) = x \<and> p x"
proof (induction xs arbitrary: n)
  case Nil
  then show ?case by simp
next
  case (Cons y ys)
  show ?case
  proof (cases "p y")
    case True
    with Cons.prems show ?thesis by simp
  next
    case False
    with Cons.prems have "findFirst p (Suc n) ys = Some (i, x)" by simp
    from Cons.IH [OF this] show ?thesis by (auto simp: Suc_diff_Suc less_eq_Suc_le)
  qed
qed

lemma findFirst_update:
  "findFirst p n xs = Some (i, x) \<Longrightarrow> p y \<Longrightarrow> findFirst p n (xs[i - n := y]) = Some (i, y)"
proof (induction xs arbitrary: n)
  case Nil
  then show ?case by simp
next
  case (Cons z zs)
  show ?case
  proof (cases "p z")
    case True
    with Cons.prems show ?thesis by simp
  next
    case False
    with Cons.prems have f: "findFirst p (Suc n) zs = Some (i, x)" by simp
    from findFirst_Some [OF f] have "Suc n \<le> i" by simp
    then have "i - n = Suc (i - Suc n)" by simp
    with Cons.IH [OF f Cons.prems(2)] False show ?thesis by simp
  qed
qed

lemma findFirst_append:
  "findFirst p n xs = None \<Longrightarrow> p y \<Longrightarrow> findFirst p n (xs @ [y]) = Some (n + length xs, y)"
  by (induction xs arbitrary: n) (auto split: if_splits)

lemma findFirst_update_other:
  "\<not> p (xs ! j) \<Longrightarrow> \<not> p y \<Longrightarrow> j < length xs \<Longrightarrow> findFirst p n (xs[j := y]) = findFirst p n xs"
proof (induction xs arbitrary: n j)
  case Nil
  then show ?case by simp
next
  case (Cons z zs)
  then show ?case by (cases j) auto
qed

lemma findFirst_append_other:
  "\<not> p y \<Longrightarrow> findFirst p n (xs @ [y]) = findFirst p n xs"
  by (induction xs arbitrary: n) auto

lemma findIndex_Some:
  "findIndex p xs = Some k \<Longrightarrow> k < length xs \<and> p (xs ! k) \<and> (\<forall>j<k. \<not> p (xs ! j))"
proof (induction xs arbitrary: k)
  case Nil
  then show ?case by simp
next
  case (Cons x xs)
  show ?case
  proof (cases "p x")
    case True
    with Cons.prems show ?thesis by simp
  next
    case False
    with Cons.prems obtain k' where k': "findIndex p xs = Some k'" and k: "k = Suc k'" by auto
    from Cons.IH [OF k'] False k show ?thesis
      by (auto simp: nth_Cons less_Suc_eq_0_disj split: nat.splits)
  qed
qed

lemma findIndex_None: "findIndex p xs = None \<Longrightarrow> \<forall>x\<in>set xs. \<not> p x"
  by (induction xs) (auto split: if_splits)

lemma those_map_Some:
  "those (map f xs) = Some ys \<Longrightarrow>
     length ys = length xs \<and> (\<forall>k<length xs. f (xs ! k) = Some (ys ! k))"
proof (induction xs arbitrary: ys)
  case Nil
  then show ?case by simp
next
  case (Cons x xs)
  from Cons.prems obtain y zs where y: "f x = Some y" and zs: "those (map f xs) = Some zs"
    and ys: "ys = y # zs"
    by (auto split: option.splits)
  from Cons.IH [OF zs] y ys show ?case by (auto simp: nth_Cons split: nat.splits)
qed

lemma findOne_Some:
  "findOne s uid = Some (i, c) \<Longrightarrow>
     i < length (carts s) \<and> carts s ! i = c \<and> user c = uid \<and> \<not> isCheckedOut c"
  using findFirst_Some [of "\<lambda>c. user c = uid \<and> \<not> isCheckedOut c" 0 "carts s" i c]
  by (simp add: findOne_def)

lemma cart_save_Inr:
  "cart_save now s r c = Inr (c', s') \<Longrightarrow>
     cart_valid c \<and> c' = cart_pre_save now c \<and>
     s' = (case r of Stored i \<Rightarrow> s\<lparr>carts := (carts s)[i := c']\<rparr>
                   | Fresh \<Rightarrow> s\<lparr>carts := carts s @ [c']\<rparr>)"
  by (auto simp: cart_save_def Let_def split: if_splits)

lemma cart_pre_save_total:
  "cart.totalAmount (cart_pre_save now c) =
     sum_list (map cart_item.subtotal (cart.items (cart_pre_save now c)))"
  by (simp add: cart_pre_save_def foldl_subtotal)

lemma findOne_after_save_Stored:
  assumes "findOne s uid = Some (i, c)" and "user c1 = uid" and "\<not> isCheckedOut c1"
    and "cart_save now s (Stored i) c1 = Inr (c2, s')"
  shows "findOne s' uid = Some (i, c2)"
proof -
  from cart_save_Inr [OF assms(4)]
  have c2: "c2 = cart_pre_save now c1" and s': "s' = s\<lparr>carts := (carts s)[i := c2]\<rparr>"
    by simp_all
  have p: "user c2 = uid \<and> \<not> isCheckedOut c2"
    using assms(2,3) c2 by (simp add: cart_pre_save_def)
  from findFirst_update [of "\<lambda>c. user c = uid \<and> \<not> isCheckedOut c" 0 "carts s" i c c2] assms(1) p
  show ?thesis by (simp add: findOne_def s')
qed

lemma findOne_after_save_Fresh:
  assumes "findOne s uid = None" and "user c1 = uid" and "\<not> isCheckedOut c1"
    and "cart_save now s Fresh c1 = Inr (c2, s')"
  shows "findOne s' uid = Some (length (carts s), c2)"
proof -
  from cart_save_Inr [OF assms(4)]
  have c2: "c2 = cart_pre_save now c1" and s': "s' = s\<lparr>carts := carts s @ [c2]\<rparr>"
    by simp_all
  have p: "user c2 = uid \<and> \<not> isCheckedOut c2"
    using assms(2,3) c2 by (simp add: cart_pre_save_def)
  from findFirst_append [of "\<lambda>c. user c = uid \<and> \<not> isCheckedOut c" 0 "carts s" c2] assms(1) p
  show ?thesis by (simp add: findOne_def s')
qed

section \<open>The total of a cart\<close>

lemma savedI:
  "cart_save now s r c1 = Inr (c2, s') \<Longrightarrow> user c1 = uid \<Longrightarrow> \<not> isCheckedOut c1 \<Longrightarrow>
   (case r of Stored i \<Rightarrow> (\<exists>c. findOne s uid = Some (i, c)) | Fresh \<Rightarrow> findOne s uid = None) \<Longrightarrow>
   saved s uid s'"
  unfolding saved_def by blast

lemma addItem_saved:
  assumes "addItem findById now s uid fid sid q = (Inr c2, s')"
  shows "saved s uid s'"
proof (cases "findOne s uid")
  case None
  with assms show ?thesis
    unfolding addItem_def Let_def
    by (auto simp: new_Cart_def split: if_splits option.splits sum.splits prod.splits
          elim!: savedI)
next
  case (Some ic)
  obtain i c where ic: "ic = (i, c)" by (cases ic)
  from Some ic findOne_Some [of s uid i c] have u: "user c = uid" "\<not> isCheckedOut c"
    by simp_all
  with assms Some ic show ?thesis
    unfolding addItem_def Let_def
    by (auto split: if_splits option.splits sum.splits prod.splits elim!: savedI)
qed

lemma updateItem_saved:
  assumes "updateItem now s uid k q = (Inr c2, s')"
  shows "saved s uid s'"
proof -
  from assms obtain i c where f: "findOne s uid = Some (i, c)"
    by (auto simp: updateItem_def split: option.splits if_splits)
  from findOne_Some [OF f] have u: "user c = uid" "\<not> isCheckedOut c" by simp_all
  with assms f show ?thesis
    unfolding updateItem_def Let_def
    by (auto split: if_splits option.splits sum.splits prod.splits elim!: savedI)
qed

lemma removeItem_saved:
  assumes "removeItem now s uid k = (Inr c2, s')"
  shows "saved s uid s'"
proof -
  from assms obtain i c where f: "findOne s uid = Some (i, c)"
    by (auto simp: removeItem_def split: option.splits if_splits)
  from findOne_Some [OF f] have u: "user c = uid" "\<not> isCheckedOut c" by simp_all
  with assms f show ?thesis
    unfolding removeItem_def Let_def
    by (auto split: if_splits option.splits sum.splits prod.splits elim!: savedI)
qed

lemma clearCart_saved:
  assumes "clearCart now s uid = (Inr r, s')"
  shows "s' = s \<and> findOne s uid = None \<or> saved s uid s'"
proof (cases "findOne s uid")
  case None
  with assms show ?thesis by (simp add: clearCart_def)
next
  case (Some ic)
  obtain i c where ic: "ic = (i, c)" by (cases ic)
  from Some ic findOne_Some [of s uid i c] have u: "user c = uid" "\<not> isCheckedOut c"
    by simp_all
  with assms Some ic have "saved s uid s'"
    unfolding clearCart_def
    by (auto split: if_splits option.splits sum.splits prod.splits elim!: savedI)
  then show ?thesis ..
qed

lemma mutate_saved:
  assumes "mutate findById s (uid, now, m) = Inr s'"
  shows "s' = s \<and> findOne s uid = None \<or> saved s uid s'"
proof (cases m)
  case (Add fid sid q)
  with assms obtain c2 where "addItem findById now s uid fid sid q = (Inr c2, s')"
    by (auto split: prod.splits sum.splits)
  from addItem_saved [OF this] show ?thesis ..
next
  case (Update k q)
  with assms obtain c2 where "updateItem now s uid k q = (Inr c2, s')"
    by (auto split: prod.splits sum.splits)
  from updateItem_saved [OF this] show ?thesis ..
next
  case (Remove k)
  with assms obtain c2 where "removeItem now s uid k = (Inr c2, s')"
    by (auto split: prod.splits sum.splits)
  from removeItem_saved [OF this] show ?thesis ..
next
  case Clear
  with assms obtain r where "clearCart now s uid = (Inr r, s')"
    by (auto split: prod.splits sum.splits)
  from clearCart_saved [OF this] show ?thesis .
qed

text \<open>After a save, the open cart of the user is the cart that was saved.\<close>

lemma saved_own:
  assumes "saved s uid s'" and "findOne s' uid = Some (i, c)"
  shows "cart.totalAmount c = sum_list (map cart_item.subtotal (cart.items c))"
proof -
  from assms(1) obtain now r c1 c2 where
    u: "user c1 = uid" "\<not> isCheckedOut c1" and sv: "cart_save now s r c1 = Inr (c2, s')" and
    r: "case r of Stored i \<Rightarrow> (\<exists>c. findOne s uid = Some (i, c)) | Fresh \<Rightarrow> findOne s uid = None"
    unfolding saved_def by blast
  have c2: "cart.totalAmount c2 = sum_list (map cart_item.subtotal (cart.items c2))"
    using cart_save_Inr [OF sv] by (simp add: cart_pre_save_total)
  show ?thesis
  proof (cases r)
    case (Stored j)
    with r obtain c0 where "findOne s uid = Some (j, c0)" by auto
    from findOne_after_save_Stored [OF this u] sv Stored have "findOne s' uid = Some (j, c2)"
      by simp
    with assms(2) c2 show ?thesis by simp
  next
    case Fresh
    with r have "findOne s uid = None" by simp
    from findOne_after_save_Fresh [OF this u] sv Fresh
    have "findOne s' uid = Some (length (carts s), c2)" by simp
    with assms(2) c2 show ?thesis by simp
  qed
qed

text \<open>A save of one user's cart leaves the open cart of every other user as it was.\<close>

lemma saved_other:
  assumes "saved s uid s'" and "uid' \<noteq> uid"
  shows "findOne s' uid' = findOne s uid'"
proof -
  from assms(1) obtain now r c1 c2 where
    u: "user c1 = uid" "\<not> isCheckedOut c1" and sv: "cart_save now s r c1 = Inr (c2, s')" and
    r: "case r of Stored i \<Rightarrow> (\<exists>c. findOne s uid = Some (i, c)) | Fresh \<Rightarrow> findOne s uid = None"
    unfolding saved_def by blast
  from cart_save_Inr [OF sv] have c2: "c2 = cart_pre_save now c1" by simp
  then have n2: "\<not> (user c2 = uid' \<and> \<not> isCheckedOut c2)"
    using u assms(2) by (simp add: cart_pre_save_def)
  show ?thesis
  proof (cases r)
    case (Stored j)
    with r obtain c0 where f: "findOne s uid = Some (j, c0)" by auto
    from findOne_Some [OF f] have j: "j < length (carts s)" and "user (carts s ! j) = uid"
      by auto
    then have "\<not> (user (carts s ! j) = uid' \<and> \<not> isCheckedOut (carts s ! j))"
      using assms(2) by simp
    from findFirst_update_other [of "\<lambda>c. user c = uid' \<and> \<not> isCheckedOut c", OF this n2 j]
    show ?thesis using cart_save_Inr [OF sv] Stored by (simp add: findOne_def)
  next
    case Fresh
    from findFirst_append_other [of "\<lambda>c. user c = uid' \<and> \<not> isCheckedOut c", OF n2]
    show ?thesis using cart_save_Inr [OF sv] Fresh by (simp add: findOne_def)
  qed
qed

lemma run_append:
  "run findById s (ms @ ms') =
     (case run findById s ms of Inl e \<Rightarrow> Inl e | Inr s1 \<Rightarrow> run findById s1 ms')"
  by (induction ms arbitrary: s) (auto split: sum.splits)

lemma run_prefix:
  "run findById s (ms @ ms') = Inr s' \<Longrightarrow> \<exists>s1. run findById s ms = Inr s1"
  by (simp add: run_append split: sum.splits)

text \<open>
  C1. Take any store, any catalogue and any sequence of calls of add, update, remove and
  clear, by any users, all of which succeed. Then for every user who made one of the
  calls, the open cart of that user in the store after the sequence, if there is one, has
  \<open>totalAmount\<close> equal to the sum of the \<open>subtotal\<close> of its lines. Every prefix of
  such a sequence is such a sequence (\<open>run_prefix\<close>), so this holds after each call.
  (A clear for a user who has no open cart succeeds and writes nothing.)
\<close>

theorem cart_total_is_sum_of_subtotals:
  assumes "run findById s ms = Inr s'"
    and "uid \<in> set (map fst ms)"
    and "findOne s' uid = Some (i, c)"
  shows "cart.totalAmount c = sum_list (map cart_item.subtotal (cart.items c))"
  using assms
proof (induction ms arbitrary: s' i c rule: rev_induct)
  case Nil
  then show ?case by simp
next
  case (snoc m ms)
  obtain u now mu where m: "m = (u, now, mu)" by (cases m)
  from snoc.prems(1) obtain s1 where s1: "run findById s ms = Inr s1"
    and st: "mutate findById s1 (u, now, mu) = Inr s'"
    by (auto simp: run_append m split: sum.splits)
  from mutate_saved [OF st] have d: "s' = s1 \<and> findOne s1 u = None \<or> saved s1 u s'" .
  show ?case
  proof (cases "uid = u")
    case True
    from d show ?thesis
    proof
      assume "s' = s1 \<and> findOne s1 u = None"
      with snoc.prems(3) True show ?thesis by simp
    next
      assume "saved s1 u s'"
      from saved_own [OF this] snoc.prems(3) True show ?thesis by simp
    qed
  next
    case False
    with snoc.prems(2) m have mem: "uid \<in> set (map fst ms)" by auto
    have "findOne s' uid = findOne s1 uid"
      using d saved_other [of s1 u s' uid] False by auto
    with snoc.prems(3) have "findOne s1 uid = Some (i, c)" by simp
    from snoc.IH [OF s1 mem this] show ?thesis .
  qed
qed

theorem cart_total_is_sum_of_subtotals_witness:
  "run demo_findFood demo_store
       [(''user1'', 2000, Update 0 (Some 3)), (''user2'', 2500, Clear)]
     = Inr \<lparr>carts = [demo_cart\<lparr>cart.items := [demo_line\<lparr>cart_item.quantity := 3,
                                                           cart_item.subtotal := 300\<rparr>],
                               cart.totalAmount := 300, updatedAt := Some 2000\<rparr>],
            orders = []\<rparr> \<and>
   ''user1'' \<in> set (map fst [(''user1'', 2000 :: Date, Update 0 (Some 3)), (''user2'', 2500, Clear)]) \<and>
   findOne \<lparr>carts = [demo_cart\<lparr>cart.items := [demo_line\<lparr>cart_item.quantity := 3,
                                                           cart_item.subtotal := 300\<rparr>],
                               cart.totalAmount := 300, updatedAt := Some 2000\<rparr>],
            orders = []\<rparr> ''user1''
     = Some (0, demo_cart\<lparr>cart.items := [demo_line\<lparr>cart_item.quantity := 3,
                                                       cart_item.subtotal := 300\<rparr>],
                           cart.totalAmount := 300, updatedAt := Some 2000\<rparr>) \<and>
   cart.totalAmount (demo_cart\<lparr>cart.items := [demo_line\<lparr>cart_item.quantity := 3,
                                                            cart_item.subtotal := 300\<rparr>],
                                cart.totalAmount := 300, updatedAt := Some 2000\<rparr>)
     = sum_list (map cart_item.subtotal
         (cart.items (demo_cart\<lparr>cart.items := [demo_line\<lparr>cart_item.quantity := 3,
                                                              cart_item.subtotal := 300\<rparr>],
                                  cart.totalAmount := 300, updatedAt := Some 2000\<rparr>)))"
proof -
  let ?ms = "[(''user1'', 2000 :: Date, Update 0 (Some 3)), (''user2'', 2500, Clear)]"
  let ?c = "demo_cart\<lparr>cart.items := [demo_line\<lparr>cart_item.quantity := 3,
                                                   cart_item.subtotal := 300\<rparr>],
                       cart.totalAmount := 300, updatedAt := Some 2000\<rparr>"
  let ?s = "\<lparr>carts = [?c], orders = []\<rparr>"
  have ev: "run demo_findFood demo_store ?ms = Inr ?s"
    by (simp add: updateItem_def clearCart_def findOne_def demo_store_def demo_cart_def
        demo_line_def cart_save_def cart_valid_def cart_pre_save_def Let_def)
  have mem: "''user1'' \<in> set (map fst ?ms)" by simp
  have f: "findOne ?s ''user1'' = Some (0, ?c)"
    by (simp add: findOne_def demo_cart_def)
  from cart_total_is_sum_of_subtotals [OF ev mem f] ev mem f show ?thesis by blast
qed

section \<open>Checkout\<close>

lemma order_save_Inr:
  "order_save now rnd s ord = Inr (ord', s') \<Longrightarrow>
     order_valid ord \<and> ord' = order_pre_save now rnd ord \<and> s' = s\<lparr>orders := orders s @ [ord']\<rparr>"
  by (auto simp: order_save_def Let_def split: if_splits)

lemma order_line_Some:
  "order_line findFood item = Some l \<Longrightarrow>
     foodId l = food item \<and> order_item.quantity l = cart_item.quantity item \<and>
     order_item.price l = cart_item.price item \<and>
     order_item.subtotal l = cart_item.subtotal item"
  by (auto simp: order_line_def split: option.splits)

text \<open>A checkout that succeeds: what the request and the store were, and what it wrote.\<close>

lemma checkout_Inr:
  assumes "checkout findFood findShop now rnd s uid pm addr phone = (Inr ord, s')"
  shows "\<exists>a i c first rest lines.
           addr = Some a \<and> pm \<noteq> [] \<and> phone \<noteq> [] \<and> findOne s uid = Some (i, c) \<and>
           cart.items c = first # rest \<and>
           those (map (order_line findFood) (cart.items c)) = Some lines \<and>
           ord = placed_order now rnd uid pm a phone c first lines \<and>
           order_valid ord \<and>
           s' = \<lparr>carts = (carts s)[i := cart_pre_save now (c\<lparr>isCheckedOut := True\<rparr>)],
                 orders = orders s @ [ord]\<rparr>"
  using assms
  unfolding checkout_def Let_def
  by (auto simp: placed_order_def order_pre_save_def order_valid_def
        split: option.splits if_splits list.splits prod.splits sum.splits
        dest!: order_save_Inr cart_save_Inr)

lemma demo_findOne: "findOne demo_store ''user1'' = Some (0, demo_cart)"
  by (simp add: findOne_def demo_store_def demo_cart_def)

lemma demo_checkout:
  assumes "pm = ''cod'' \<or> pm = ''card'' \<or> pm = ''upi'' \<or> pm = ''wallet''"
  shows "checkout demo_findFood demo_findShop 5000 42 demo_store ''user1'' pm
           (Some demo_address) ''9876543210''
         = (Inr (demo_order pm), demo_store_after pm)"
  using assms
  apply (elim disjE)
  apply (simp_all add: checkout_def findOne_def demo_cart_def demo_line_def demo_findShop_def
      demo_findFood_def order_line_def demo_food_def order_save_def order_pre_save_def
      demo_store_def cart_save_def cart_valid_def cart_pre_save_def demo_order_def
      placed_order_def demo_store_after_def Let_def order_valid_def simulate_payment_def
      demo_address_def Math_round_def)
  done



text \<open>
  C3, as amended. For every user whose open cart is absent or has no lines, checkout
  fails and leaves the store as it was (no order is created, no field of a cart
  changes, the cart stays open). The failure is the one for an empty cart when the
  request carries a payment method, a delivery address and a phone number; when one of
  them is missing, the handler answers that they are required before it looks at the
  cart.
\<close>

theorem checkout_empty_cart:
  assumes "findOne s uid = None \<or> (\<exists>i c. findOne s uid = Some (i, c) \<and> cart.items c = [])"
  shows "checkout findFood findShop now rnd s uid pm addr phone =
           (if pm = [] \<or> addr = None \<or> phone = [] then (Inl CheckoutFieldsRequired, s)
            else (Inl CartEmpty, s))"
  using assms by (auto simp: checkout_def split: option.splits)

theorem checkout_empty_cart_witness:
  "findOne empty_store ''user1'' = None \<and>
   checkout demo_findFood demo_findShop 5000 42 empty_store ''user1'' ''cod''
       (Some demo_address) ''9876543210''
     = (Inl CartEmpty, empty_store) \<and>
   findOne \<lparr>carts = [demo_cart\<lparr>cart.items := [], cart.totalAmount := 0\<rparr>], orders = []\<rparr> ''user1''
     = Some (0, demo_cart\<lparr>cart.items := [], cart.totalAmount := 0\<rparr>) \<and>
   checkout demo_findFood demo_findShop 5000 42
       \<lparr>carts = [demo_cart\<lparr>cart.items := [], cart.totalAmount := 0\<rparr>], orders = []\<rparr>
       ''user1'' ''cod'' (Some demo_address) ''9876543210''
     = (Inl CartEmpty, \<lparr>carts = [demo_cart\<lparr>cart.items := [], cart.totalAmount := 0\<rparr>],
                        orders = []\<rparr>)"
proof -
  let ?s = "\<lparr>carts = [demo_cart\<lparr>cart.items := [], cart.totalAmount := 0\<rparr>], orders = []\<rparr>"
  have n: "findOne empty_store ''user1'' = None"
    by (simp add: findOne_def empty_store_def)
  have e: "findOne ?s ''user1'' = Some (0, demo_cart\<lparr>cart.items := [], cart.totalAmount := 0\<rparr>)"
    by (simp add: findOne_def demo_cart_def)
  have h1: "findOne empty_store ''user1'' = None \<or>
            (\<exists>i c. findOne empty_store ''user1'' = Some (i, c) \<and> cart.items c = [])"
    using n by simp
  have h2: "findOne ?s ''user1'' = None \<or>
            (\<exists>i c. findOne ?s ''user1'' = Some (i, c) \<and> cart.items c = [])"
    using e by simp
  from checkout_empty_cart [OF h1, of demo_findFood demo_findShop 5000 42 "''cod''"
      "Some demo_address" "''9876543210''"]
    checkout_empty_cart [OF h2, of demo_findFood demo_findShop 5000 42 "''cod''"
      "Some demo_address" "''9876543210''"] n e
  show ?thesis by simp
qed

text \<open>
  C3 without the condition on the request fails when the address is missing: the user
  has no open cart, and the failure is not the one for an empty cart.
\<close>

theorem checkout_empty_cart_counterexample:
  "findOne empty_store ''user1'' = None \<and>
   fst (checkout demo_findFood demo_findShop 5000 42 empty_store ''user1'' ''cod'' None
          ''9876543210'') = Inl CheckoutFieldsRequired \<and>
   fst (checkout demo_findFood demo_findShop 5000 42 empty_store ''user1'' ''cod'' None
          ''9876543210'') \<noteq> Inl CartEmpty"
  by (simp add: findOne_def empty_store_def checkout_def)

text \<open>
  C4. For every checkout that succeeds on the open cart of the user: the orders after
  it are the orders before it and one new order; this order has one line for each line
  of the cart, in order, with the same food, quantity, price and subtotal; its
  \<open>shopId\<close> is the shop of the first line of the cart; the cart, and no other cart, is
  written, and is checked out afterwards; the \<open>status\<close> of the order is confirmed; and
  its \<open>estimatedDeliveryTime\<close> is the time of the checkout plus 45 minutes, in
  milliseconds.
\<close>

theorem checkout_creates_one_order:
  assumes "checkout findFood findShop now rnd s uid pm addr phone = (Inr ord, s')"
    and "findOne s uid = Some (i, c)"
  shows "orders s' = orders s @ [ord] \<and>
         cart.items c \<noteq> [] \<and>
         shopId ord = cart_item.shop (hd (cart.items c)) \<and>
         userId ord = uid \<and>
         length (order.items ord) = length (cart.items c) \<and>
         (\<forall>k<length (cart.items c).
            foodId (order.items ord ! k) = food (cart.items c ! k) \<and>
            order_item.quantity (order.items ord ! k) = cart_item.quantity (cart.items c ! k) \<and>
            order_item.price (order.items ord ! k) = cart_item.price (cart.items c ! k) \<and>
            order_item.subtotal (order.items ord ! k) = cart_item.subtotal (cart.items c ! k)) \<and>
         length (carts s') = length (carts s) \<and>
         i < length (carts s') \<and> isCheckedOut (carts s' ! i) \<and>
         (\<forall>j<length (carts s). j \<noteq> i \<longrightarrow> carts s' ! j = carts s ! j) \<and>
         status ord = ''confirmed'' \<and>
         estimatedDeliveryTime ord = now + 45 * 60 * 1000"
proof -
  from checkout_Inr [OF assms(1)] assms(2) obtain a first rest lines where
    its: "cart.items c = first # rest" and
    lines: "those (map (order_line findFood) (cart.items c)) = Some lines" and
    ord: "ord = placed_order now rnd uid pm a phone c first lines" and
    s': "s' = \<lparr>carts = (carts s)[i := cart_pre_save now (c\<lparr>isCheckedOut := True\<rparr>)],
               orders = orders s @ [ord]\<rparr>"
    by auto
  from findOne_Some [OF assms(2)] have i: "i < length (carts s)" by simp
  from those_map_Some [OF lines]
  have len: "length lines = length (cart.items c)"
    and nth: "\<forall>k<length (cart.items c). order_line findFood (cart.items c ! k) = Some (lines ! k)"
    by simp_all
  have l: "\<forall>k<length (cart.items c).
            foodId (lines ! k) = food (cart.items c ! k) \<and>
            order_item.quantity (lines ! k) = cart_item.quantity (cart.items c ! k) \<and>
            order_item.price (lines ! k) = cart_item.price (cart.items c ! k) \<and>
            order_item.subtotal (lines ! k) = cart_item.subtotal (cart.items c ! k)"
    using nth order_line_Some by blast
  have o: "order.items ord = lines" "shopId ord = cart_item.shop first" "userId ord = uid"
    "status ord = ''confirmed''" "estimatedDeliveryTime ord = now + 45 * 60 * 1000"
    by (simp_all add: ord placed_order_def)
  have c: "isCheckedOut (carts s' ! i)" using i by (simp add: s' cart_pre_save_def)
  show ?thesis using its len l o c i by (simp add: s')
qed

theorem checkout_creates_one_order_witness:
  "checkout demo_findFood demo_findShop 5000 42 demo_store ''user1'' ''card''
       (Some demo_address) ''9876543210''
     = (Inr (demo_order ''card''), demo_store_after ''card'') \<and>
   findOne demo_store ''user1'' = Some (0, demo_cart) \<and>
   orders (demo_store_after ''card'') = orders demo_store @ [demo_order ''card''] \<and>
   shopId (demo_order ''card'') = ''shop1'' \<and>
   length (order.items (demo_order ''card'')) = 1 \<and>
   foodId (order.items (demo_order ''card'') ! 0) = ''food1'' \<and>
   order_item.quantity (order.items (demo_order ''card'') ! 0) = 2 \<and>
   order_item.price (order.items (demo_order ''card'') ! 0) = 100 \<and>
   order_item.subtotal (order.items (demo_order ''card'') ! 0) = 200 \<and>
   isCheckedOut (carts (demo_store_after ''card'') ! 0) \<and>
   status (demo_order ''card'') = ''confirmed'' \<and>
   estimatedDeliveryTime (demo_order ''card'') = 5000 + 45 * 60 * 1000"
proof -
  have ev: "checkout demo_findFood demo_findShop 5000 42 demo_store ''user1'' ''card''
              (Some demo_address) ''9876543210''
            = (Inr (demo_order ''card''), demo_store_after ''card'')"
    by (rule demo_checkout) simp
  have h: "cart_item.shop (hd (cart.items demo_cart)) = ''shop1''"
    "length (cart.items demo_cart) = 1" "food (cart.items demo_cart ! 0) = ''food1''"
    "cart_item.quantity (cart.items demo_cart ! 0) = 2"
    "cart_item.price (cart.items demo_cart ! 0) = 100"
    "cart_item.subtotal (cart.items demo_cart ! 0) = 200"
    by (simp_all add: demo_cart_def demo_line_def)
  from checkout_creates_one_order [OF ev demo_findOne] h ev demo_findOne
  show ?thesis by simp
qed

text \<open>
  C5. For every checkout that succeeds, the payment method of the order is the one of
  the request and is one of cod, card, upi and wallet. For cod the \<open>paymentStatus\<close> is
  pending and the \<open>paymentId\<close> is the reference COD with the time of the checkout; for
  card and upi the \<open>paymentStatus\<close> is completed (and the reference is PAY with the
  time); for wallet neither branch of the simulation runs: the \<open>paymentStatus\<close> keeps
  its initial value pending and the \<open>paymentId\<close> stays null.
\<close>

theorem checkout_payment_simulation:
  assumes "checkout findFood findShop now rnd s uid pm addr phone = (Inr ord, s')"
  shows "paymentMethod ord = pm \<and>
         (pm = ''cod'' \<or> pm = ''card'' \<or> pm = ''upi'' \<or> pm = ''wallet'') \<and>
         (pm = ''cod'' \<longrightarrow> paymentStatus ord = ''pending'' \<and> paymentId ord = Some (COD now)) \<and>
         (pm = ''card'' \<or> pm = ''upi'' \<longrightarrow>
            paymentStatus ord = ''completed'' \<and> paymentId ord = Some (PAY now)) \<and>
         (pm = ''wallet'' \<longrightarrow> paymentStatus ord = ''pending'' \<and> paymentId ord = None)"
proof -
  from checkout_Inr [OF assms(1)] obtain a c first lines where
    ord: "ord = placed_order now rnd uid pm a phone c first lines" and v: "order_valid ord"
    by auto
  from v have "pm = ''cod'' \<or> pm = ''card'' \<or> pm = ''upi'' \<or> pm = ''wallet''"
    by (simp add: ord order_valid_def placed_order_def)
  then show ?thesis
    by (auto simp: ord placed_order_def simulate_payment_def)
qed

theorem checkout_payment_simulation_witness:
  "checkout demo_findFood demo_findShop 5000 42 demo_store ''user1'' ''cod''
       (Some demo_address) ''9876543210''
     = (Inr (demo_order ''cod''), demo_store_after ''cod'') \<and>
   paymentStatus (demo_order ''cod'') = ''pending'' \<and>
   paymentId (demo_order ''cod'') = Some (COD 5000) \<and>
   checkout demo_findFood demo_findShop 5000 42 demo_store ''user1'' ''card''
       (Some demo_address) ''9876543210''
     = (Inr (demo_order ''card''), demo_store_after ''card'') \<and>
   paymentStatus (demo_order ''card'') = ''completed'' \<and>
   checkout demo_findFood demo_findShop 5000 42 demo_store ''user1'' ''upi''
       (Some demo_address) ''9876543210''
     = (Inr (demo_order ''upi''), demo_store_after ''upi'') \<and>
   paymentStatus (demo_order ''upi'') = ''completed'' \<and>
   checkout demo_findFood demo_findShop 5000 42 demo_store ''user1'' ''wallet''
       (Some demo_address) ''9876543210''
     = (Inr (demo_order ''wallet''), demo_store_after ''wallet'') \<and>
   paymentStatus (demo_order ''wallet'') = ''pending'' \<and>
   paymentId (demo_order ''wallet'') = None"
proof -
  have cod: "checkout demo_findFood demo_findShop 5000 42 demo_store ''user1'' ''cod''
               (Some demo_address) ''9876543210''
             = (Inr (demo_order ''cod''), demo_store_after ''cod'')"
    by (rule demo_checkout) simp
  have card: "checkout demo_findFood demo_findShop 5000 42 demo_store ''user1'' ''card''
                (Some demo_address) ''9876543210''
              = (Inr (demo_order ''card''), demo_store_after ''card'')"
    by (rule demo_checkout) simp
  have upi: "checkout demo_findFood demo_findShop 5000 42 demo_store ''user1'' ''upi''
               (Some demo_address) ''9876543210''
             = (Inr (demo_order ''upi''), demo_store_after ''upi'')"
    by (rule demo_checkout) simp
  have wallet: "checkout demo_findFood demo_findShop 5000 42 demo_store ''user1'' ''wallet''
                  (Some demo_address) ''9876543210''
                = (Inr (demo_order ''wallet''), demo_store_after ''wallet'')"
    by (rule demo_checkout) simp
  from checkout_payment_simulation [OF cod] checkout_payment_simulation [OF card]
    checkout_payment_simulation [OF upi] checkout_payment_simulation [OF wallet]
    cod card upi wallet
  show ?thesis by simp
qed




section \<open>Adding to the cart\<close>

text \<open>Whatever the failure of an add, the store is as it was.\<close>

lemma addItem_failure_frame:
  "addItem findById now s uid fid sid q = (Inl e, s') \<Longrightarrow> s' = s"
  unfolding addItem_def Let_def
  by (auto split: if_splits option.splits sum.splits prod.splits)

lemma addItem_FoodNotFound:
  assumes "fid \<noteq> []" and "sid \<noteq> []" and "findById fid = None"
  shows "addItem findById now s uid fid sid q = (Inl FoodNotFound, s)"
  using assms by (simp add: addItem_def Let_def)

text \<open>
  For a food that exists as a document of \<open>FoodSchema\<close>, the read of \<open>food.shop\<close> is
  undefined and \<open>toString\<close> on it throws: every add of it ends in the \<open>catch\<close> block,
  whatever the shop of the request and whether the food is in stock or not.
\<close>

lemma addItem_FoodSchema:
  assumes "fid \<noteq> []" and "sid \<noteq> []" and "findById fid = Some fd"
    and "FoodSchema_document fd"
  shows "addItem findById now s uid fid sid q = (Inl ErrorAdding, s)"
  using assms by (simp add: addItem_def FoodSchema_document_def Let_def)

text \<open>
  C6. The specification: an add fails with NotFound when the food does not exist, with
  Conflict when the food exists and its shop is not the shop of the request, with
  Unavailable when the food exists, is of that shop and is out of stock; the cart is
  unchanged in each case. The handler at two requests: \<open>food1\<close> exists with
  \<open>shopid\<close> 7 and the request names shop 8; \<open>food2\<close> exists with \<open>shopid\<close> 7, is out
  of stock, and the request names shop 7. Both get the response of the \<open>catch\<close> block
  (status 500), not \<open>ShopMismatch\<close> and not \<open>FoodUnavailable\<close>; the store is
  unchanged.
\<close>

theorem addItem_on_FoodSchema_documents:
  "demo_findFood ''food1'' = Some demo_food \<and> FoodSchema_document demo_food \<and>
   shopid demo_food = 7 \<and>
   addItem demo_findFood 5000 demo_store ''user1'' ''food1'' ''8'' (Some 1)
     = (Inl ErrorAdding, demo_store) \<and>
   demo_findFood ''food2'' = Some demo_food_out \<and> FoodSchema_document demo_food_out \<and>
   shopid demo_food_out = 7 \<and> \<not> instock demo_food_out \<and>
   addItem demo_findFood 5000 demo_store ''user1'' ''food2'' ''7'' (Some 1)
     = (Inl ErrorAdding, demo_store) \<and>
   status_code ErrorAdding = 500"
  by (simp add: FoodSchema_document_def demo_food_def demo_food_out_def demo_findFood_def
      addItem_def Let_def)

text \<open>
  The branch on \<open>existingItemIndex\<close> itself: when the list has a line for the food and
  the shop, the first such line gets the added quantity and the new subtotal, and no
  line is appended.
\<close>

lemma add_line_merges:
  assumes "\<exists>line\<in>set its. food line = fid \<and> cart_item.shop line = sid"
  shows "\<exists>k<length its.
           food (its ! k) = fid \<and> cart_item.shop (its ! k) = sid \<and>
           (\<forall>j<k. \<not> (food (its ! j) = fid \<and> cart_item.shop (its ! j) = sid)) \<and>
           add_line its fid sid qty pr
             = its[k := (its ! k)\<lparr>cart_item.quantity := cart_item.quantity (its ! k) + qty,
                                  cart_item.subtotal := (cart_item.quantity (its ! k) + qty) * pr\<rparr>]"
proof -
  let ?p = "\<lambda>item. food item = fid \<and> cart_item.shop item = sid"
  from assms obtain k where k: "findIndex ?p its = Some k"
    using findIndex_None [of ?p its] by (cases "findIndex ?p its") auto
  from findIndex_Some [OF k] k show ?thesis
    by (intro exI [of _ k]) (simp add: add_line_def Let_def)
qed

text \<open>
  C7. The specification: when the open cart already has a line for a food and a shop, a
  second add of the same food and shop merges into that line (the quantity grows by the
  added quantity, the subtotal is the new quantity times the price of the food) and
  appends no line. The handler at such a request: the open cart of the user has one
  line for \<open>food1\<close> and \<open>shop1\<close> with quantity 2, \<open>food1\<close> exists, and the request
  adds 3 of \<open>food1\<close> from \<open>shop1\<close>. The read of \<open>food.shop\<close> is undefined for the
  document of \<open>FoodSchema\<close>, so the handler answers with the response of its
  \<open>catch\<close> block before it reaches the merge: the store is unchanged and the line
  still has quantity 2.
\<close>

theorem addItem_second_add_fails:
  "findOne demo_store ''user1'' = Some (0, demo_cart) \<and>
   cart.items demo_cart = [demo_line] \<and>
   food demo_line = ''food1'' \<and> cart_item.shop demo_line = ''shop1'' \<and>
   cart_item.quantity demo_line = 2 \<and>
   demo_findFood ''food1'' = Some demo_food \<and> FoodSchema_document demo_food \<and>
   addItem demo_findFood 5000 demo_store ''user1'' ''food1'' ''shop1'' (Some 3)
     = (Inl ErrorAdding, demo_store) \<and>
   status_code ErrorAdding = 500"
  by (simp add: findOne_def demo_store_def demo_cart_def demo_line_def demo_findFood_def
      demo_food_def FoodSchema_document_def addItem_def Let_def)

section \<open>Trending shops\<close>

text \<open>A path of one segment goes to the handler of \<open>/:id\<close>.\<close>

lemma route_one_segment: "s \<noteq> [] \<Longrightarrow> route shop_GET_routes [s] = Some GetShop"
  by (simp add: route_def shop_GET_routes_def path_matches_def)

text \<open>No path goes to the handler of \<open>/trending\<close>.\<close>

lemma trending_unreachable: "route shop_GET_routes path \<noteq> Some GetTrending"
  by (auto simp: route_def shop_GET_routes_def path_matches_def list_all2_Cons1
      split: if_splits)

text \<open>The weekly count of the aggregation is the same number for every shop.\<close>

lemma weeklyStats_any_shop: "weeklyStats now os sh = weeklyStats now os sh'"
  by (simp add: weeklyStats_def)

text \<open>
  C8. The specification: a shop is among the trending shops only if its average rating is at
  least 4.0, or its own delivered orders of the last seven days are at least 5, or it is
  featured; its score is twice the average rating plus this count plus 5 if featured
  plus 3 if within 5 km; the result is sorted by score, then rating, both descending.

  The router: \<open>GET /:id\<close> is declared before \<open>GET /trending\<close>, so the request for
  the trending shops goes to the handler of \<open>/:id\<close> with \<open>id = 'trending'\<close>, which
  is not 24 hexadecimal digits, and the answer is 400 \<open>Invalid shop ID format\<close>
  whatever the shops, the orders and the query are. No shop is returned, also not the
  shop of the specification with 6 orders in the week.

  The handler of \<open>/trending\<close>, were it reached, at two shops 1 km away, neither
  featured: shop A has rating 3.5 and 2 delivered orders in the week, shop B has rating
  3.0 and 4. The specification leaves both out. The aggregation returns both, each with
  a weekly count of 6, the orders of the two shops together, and with scores 16 and 15.
\<close>

theorem trending_request_answered_by_getShop:
  "route shop_GET_routes [''trending''] = Some GetShop \<and>
   GET_shops geoDistance now shops os [''trending''] q
     = Failure 400 ''Invalid shop ID format'' \<and>
   GET_shops (\<lambda>p q. 1000) 1000000000 [demo_shopA, demo_shopB] demo_orders [''trending'']
       demo_query
     = Failure 400 ''Invalid shop ID format'' \<and>
   average (rating demo_shopA) = 3.5 \<and> \<not> isFeatured demo_shopA \<and>
   delivered_in_week 1000000000 demo_orders (oid demo_shopA) = 2 \<and>
   average (rating demo_shopB) = 3.0 \<and> \<not> isFeatured demo_shopB \<and>
   delivered_in_week 1000000000 demo_orders (oid demo_shopB) = 4 \<and>
   getTrending (\<lambda>p q. 1000) 1000000000 [demo_shopA, demo_shopB] demo_orders demo_query
     = TrendingShops (trendingShops (\<lambda>p q. 1000) 1000000000 [demo_shopA, demo_shopB]
                        demo_orders (77.2, 28.6) 10) \<and>
   map (\<lambda>row. (oid (doc row), weeklyOrders row, trendingScore row))
     (trendingShops (\<lambda>p q. 1000) 1000000000 [demo_shopA, demo_shopB] demo_orders (77.2, 28.6) 10)
     = [(''shopA'', 6, 16), (''shopB'', 6, 15)]"
proof -
  have r: "route shop_GET_routes [''trending''] = Some GetShop"
    by (rule route_one_segment) simp
  have g: "GET_shops geoDistance now shops os [''trending''] q
             = Failure 400 ''Invalid shop ID format''" for geoDistance now shops os q
    by (simp add: GET_shops_def r getShop_def)
  have h: "getTrending (\<lambda>p q. 1000) 1000000000 [demo_shopA, demo_shopB] demo_orders demo_query
     = TrendingShops (trendingShops (\<lambda>p q. 1000) 1000000000 [demo_shopA, demo_shopB]
                        demo_orders (77.2, 28.6) 10)"
    by (simp add: getTrending_def demo_query_def)
  have a: "average (rating demo_shopA) = 3.5 \<and> \<not> isFeatured demo_shopA \<and>
   delivered_in_week 1000000000 demo_orders (oid demo_shopA) = 2 \<and>
   average (rating demo_shopB) = 3.0 \<and> \<not> isFeatured demo_shopB \<and>
   delivered_in_week 1000000000 demo_orders (oid demo_shopB) = 4 \<and>
   map (\<lambda>row. (oid (doc row), weeklyOrders row, trendingScore row))
     (trendingShops (\<lambda>p q. 1000) 1000000000 [demo_shopA, demo_shopB] demo_orders (77.2, 28.6) 10)
     = [(''shopA'', 6, 16), (''shopB'', 6, 15)]"
    by (simp add: trendingShops_def geoNear_def addFields_def weeklyStats_def trending_match_def
        delivered_in_week_def demo_orders_def demo_delivered_def demo_shopA_def demo_shopB_def
        demo_shop_def demo_order_def placed_order_def Let_def)
  from r g h a show ?thesis by (simp only: simp_thms)
qed

section \<open>Doubles\<close>






lemma roundeven_of_int [simp]: "roundeven (real_of_int k) = k"
  by (simp add: roundeven_def)












section \<open>Shop rating\<close>
















end
